theory Spec2Isabelle
  imports Complex_Main
begin

section \<open>Data model\<close>

text \<open>
  Modelled from the spec: the enumeration \<open>Mode\<close> of \<open>build_common.py\<close>, which is not
  among the sources; the spec lists its six members.
\<close>

datatype Mode = ADD | SUBTRACT | INTERSECT | REPLACE | CONSTRUCTION | PRIVATE

text \<open>The enumeration \<open>Mode\<close> of \<open>cq3.py\<close>, with its own member names.\<close>

datatype cq3_Mode = ADDITION | SUBTRACTION | INTERSECTION | cq3_CONSTRUCTION

text \<open>The enumeration \<open>CqObject\<close> of \<open>cq3.py\<close>.\<close>

datatype CqObject = EDGE | FACE | VERTEX

text \<open>
  Modelled from the spec: the enumeration \<open>Keep\<close> of \<open>build_common.py\<close>, which is not
  among the sources; the spec has the top half, the bottom half, or both, and
  \<open>build_generic.py\<close> names the three members.
\<close>

datatype Keep = TOP | BOTTOM | BOTH

text \<open>The shape classes of the geometry kernel that the code tests with \<open>isinstance\<close>.\<close>

datatype shape_type = Vertex | Edge | Wire | Face | Shell | Solid | Compound

text \<open>
  A Python value that reaches a builder as one of its \<open>*objects\<close>: a kernel shape,
  \<open>None\<close> (the result of an empty builder), or a \<open>Mode\<close> member (which
  \<open>BuildFace\<close> and \<open>BuildHull\<close> pass positionally).
\<close>

datatype 's pyobj = Shape 's | NoneObj | ModeObj Mode

text \<open>
  Modelled from the spec: the enumeration \<open>Kind\<close> of \<open>build_common.py\<close>, which is not
  among the sources; the spec has it as the \<open>kind\<close> of an offset, and of its members
  \<open>build_generic.py\<close> names \<open>ARC\<close> and its tests \<open>INTERSECTION\<close>.
\<close>

datatype Kind = ARC | Kind_INTERSECTION

text \<open>
  The exceptions of the modelled code. \<open>KernelError\<close> stands for the exception of a
  kernel primitive that is handed a Python value of a type it does not expect.
\<close>

datatype error =
    RuntimeError string
  | ValueError string
  | IndexError
  | AttributeError
  | KernelError

type_synonym vec = "real \<times> real \<times> real"

text \<open>
  The geometry kernel (cadquery) is an external collaborator: its primitives are the
  fields of a record that every modelled function takes as its first argument. \<open>'s\<close>
  is the type of shape handles, \<open>'l\<close> the type of locations and \<open>'p\<close> the type
  of planes. The primitives are total functions here; what is modelled of failure is
  what the Python of this repository raises itself (an explicit \<open>raise\<close>, the index of
  a list, an attribute of \<open>None\<close>). A Python \<open>float\<close> is a real number.
\<close>

record bbox =
  xmin :: real
  ymin :: real
  zmin :: real
  xmax :: real
  ymax :: real
  zmax :: real
  xlen :: real
  ylen :: real
  zlen :: real
  DiagonalLength :: real

record ('s, 'l, 'p) kernel =
  type_of :: "'s \<Rightarrow> shape_type"
  Vertices :: "'s \<Rightarrow> 's list"
  Edges :: "'s \<Rightarrow> 's list"
  Faces :: "'s \<Rightarrow> 's list"
  get_type :: "'s \<Rightarrow> shape_type \<Rightarrow> 's list"
  makeCompound :: "'s list \<Rightarrow> 's"
  fuse :: "'s \<Rightarrow> 's list \<Rightarrow> 's"
  cut :: "'s \<Rightarrow> 's list \<Rightarrow> 's"
  intersect :: "'s \<Rightarrow> 's list \<Rightarrow> 's"
  clean :: "'s \<Rightarrow> 's"
  moved :: "'s \<Rightarrow> 'l \<Rightarrow> 's"
  located :: "'s \<Rightarrow> 'l \<Rightarrow> 's"
  Location_of :: "vec \<Rightarrow> 'l"
  makeFromWires :: "'s \<Rightarrow> 's"
  combine :: "'s list \<Rightarrow> 's list"
  find_hull :: "'s list \<Rightarrow> 's"
  makeCircle :: "real \<Rightarrow> vec \<Rightarrow> vec \<Rightarrow> 's"
  locate :: "'s \<Rightarrow> 'l \<Rightarrow> 's"
  location :: "'s \<Rightarrow> 'l"
  Rotation :: "vec \<Rightarrow> 'l"
  rotate_about :: "'s \<Rightarrow> vec \<Rightarrow> vec \<Rightarrow> real \<Rightarrow> 's"
  BoundingBox_of :: "'s \<Rightarrow> bbox"
  makeBox :: "real \<Rightarrow> real \<Rightarrow> real \<Rightarrow> vec \<Rightarrow> 's"
  makePolygon :: "vec list \<Rightarrow> 's"
  chamfer :: "'s \<Rightarrow> real \<Rightarrow> real option \<Rightarrow> 's pyobj list \<Rightarrow> 's"
  fillet :: "'s \<Rightarrow> real \<Rightarrow> 's pyobj list \<Rightarrow> 's"
  chamfer2D :: "'s \<Rightarrow> real \<Rightarrow> 's list \<Rightarrow> 's"
  fillet2D :: "'s \<Rightarrow> real \<Rightarrow> 's list \<Rightarrow> 's"
  Plane_named :: "string \<Rightarrow> 'p"
  toLocalCoords :: "'p \<Rightarrow> 's \<Rightarrow> 's"
  fromLocalCoords :: "'p \<Rightarrow> 's \<Rightarrow> 's"
  transformGeometry :: "'s \<Rightarrow> real list list \<Rightarrow> 's"
  outerWire :: "'s \<Rightarrow> 's"
  offset2D :: "'s \<Rightarrow> real \<Rightarrow> string \<Rightarrow> 's list"
  assembleEdges :: "'s list \<Rightarrow> 's"
  shell :: "'s \<Rightarrow> 's list \<Rightarrow> real \<Rightarrow> string \<Rightarrow> 's"
  fix_shape :: "'s \<Rightarrow> 's"

text \<open>
  \<open>[obj for obj in objects if isinstance(obj, T)]\<close>: the kernel's classes do not
  inherit from one another, and a value that is not a shape is an instance of none.
\<close>

fun instances :: "('s, 'l, 'p) kernel \<Rightarrow> shape_type \<Rightarrow> 's pyobj list \<Rightarrow> 's list" where
  "instances K T [] = []"
| "instances K T (Shape s # objs) =
     (if type_of K s = T then s # instances K T objs else instances K T objs)"
| "instances K T (NoneObj # objs) = instances K T objs"
| "instances K T (ModeObj m # objs) = instances K T objs"

section \<open>BuildSketch (build\_sketch.py)\<close>

text \<open>
  The fields of a \<open>BuildSketch\<close> instance that its merge reads and writes. The three
  \<open>last_...\<close> fields hold \<open>list(post - pre)\<close>, a list in the unspecified order of a
  Python set: they are modelled as the sets themselves.
\<close>

record 's BuildSketch =
  sketch :: "'s option"
  pending_edges :: "'s list"
  last_vertices :: "'s set"
  last_edges :: "'s set"
  last_faces :: "'s set"

text \<open>
  \<open>BuildSketch.__init__\<close>: no sketch, no pending edge, no delta (\<open>last_vertices\<close>
  and \<open>last_edges\<close> are left to the base class, which is not among the sources).
\<close>

definition BuildSketch_init :: "'s BuildSketch" where
  "BuildSketch_init =
     \<lparr>sketch = None, pending_edges = [], last_vertices = {}, last_edges = {}, last_faces = {}\<rparr>"

text \<open>
  The three lists that \<open>_add_to_context\<close> parses its objects into: the direct instances
  of the class, then what \<open>get_type\<close> finds in each \<open>Compound\<close> among the objects.
\<close>

definition parse_objects :: "('s, 'l, 'p) kernel \<Rightarrow> shape_type \<Rightarrow> 's pyobj list \<Rightarrow> 's list" where
  "parse_objects K T objects =
     instances K T objects @ concat (map (\<lambda>c. get_type K c T) (instances K Compound objects))"

text \<open>
  \<open>set() if self.sketch is None else set(self.sketch.Vertices())\<close>, and likewise for
  the edges and faces; two handles are the same element when the kernel says they are
  equal.
\<close>

definition snapshot :: "('s \<Rightarrow> 's list) \<Rightarrow> 's option \<Rightarrow> 's set" where
  "snapshot sub obj = (case obj of None \<Rightarrow> {} | Some s \<Rightarrow> set (sub s))"

text \<open>
  The block guarded by \<open>if new_faces:\<close>. It yields the new value of \<open>self.sketch\<close>, or
  the exception raised. A mode that no branch names leaves the sketch as it is.
\<close>

definition integrate_faces ::
  "('s, 'l, 'p) kernel \<Rightarrow> 's option \<Rightarrow> 's list \<Rightarrow> Mode \<Rightarrow> error + 's option" where
  "integrate_faces K sk new_faces mode =
     (if new_faces \<noteq> [] then
        (if mode = ADD then
           (case sk of
              None \<Rightarrow> Inr (Some (makeCompound K new_faces))
            | Some s \<Rightarrow> Inr (Some (clean K (fuse K s new_faces))))
         else if mode = SUBTRACT then
           (case sk of
              None \<Rightarrow> Inl (RuntimeError ''No sketch to subtract from'')
            | Some s \<Rightarrow> Inr (Some (clean K (cut K s new_faces))))
         else if mode = INTERSECT then
           (case sk of
              None \<Rightarrow> Inl (RuntimeError ''No sketch to intersect with'')
            | Some s \<Rightarrow> Inr (Some (clean K (intersect K s new_faces))))
         else if mode = REPLACE then
           Inr (Some (clean K (makeCompound K new_faces)))
         else Inr sk)
      else Inr sk)"

text \<open>
  \<open>BuildSketch._add_to_context(*objects, mode)\<close>. The result is the builder after the
  call, or the exception together with the builder as it is when the exception leaves
  the method.
\<close>

definition add_to_context ::
  "('s, 'l, 'p) kernel \<Rightarrow> 's BuildSketch \<Rightarrow> 's pyobj list \<Rightarrow> Mode
     \<Rightarrow> (error \<times> 's BuildSketch) + 's BuildSketch" where
  "add_to_context K self objects mode =
     (if mode \<noteq> PRIVATE then
        (let new_faces = parse_objects K Face objects;
             new_edges = parse_objects K Edge objects;
             new_wires = parse_objects K Wire objects;
             pre_vertices = snapshot (Vertices K) (sketch self);
             pre_edges = snapshot (Edges K) (sketch self);
             pre_faces = snapshot (Faces K) (sketch self)
         in case integrate_faces K (sketch self) new_faces mode of
              Inl e \<Rightarrow> Inl (e, self)
            | Inr sk \<Rightarrow>
                Inr (self\<lparr>sketch := sk,
                      last_vertices := snapshot (Vertices K) sk - pre_vertices,
                      last_edges := snapshot (Edges K) sk - pre_edges,
                      last_faces := snapshot (Faces K) sk - pre_faces,
                      pending_edges :=
                        pending_edges self @ new_edges @ concat (map (Edges K) new_wires)\<rparr>))
      else Inr self)"

section \<open>Build3D and Build2D (cq3.py)\<close>

text \<open>The fields of a \<open>Build3D\<close> instance that \<open>place_solids\<close> reads and writes.\<close>

record 's Build3D =
  working_solid :: "'s option"
  last_operation :: "CqObject \<rightharpoonup> 's set"

text \<open>
  The \<open>if/elif\<close> chain of \<open>Build3D.place_solids\<close>: the new value of
  \<open>self.working_solid\<close>, or the exception. \<open>new_solids.pop()\<close> on an empty list raises
  \<open>IndexError\<close>.
\<close>

definition combine_solids ::
  "('s, 'l, 'p) kernel \<Rightarrow> ('s \<Rightarrow> 's) \<Rightarrow> 's option \<Rightarrow> 's list \<Rightarrow> cq3_Mode \<Rightarrow> error + 's option" where
  "combine_solids K clean_op ws new_solids mode =
     (if mode = ADDITION then
        (case ws of
           None \<Rightarrow>
             (if length new_solids = 1 then Inr (Some (new_solids ! 0))
              else if new_solids = [] then Inl IndexError
              else Inr (Some (fuse K (last new_solids) (butlast new_solids))))
         | Some w \<Rightarrow> Inr (Some (clean_op (fuse K w new_solids))))
      else if mode = SUBTRACTION then
        (case ws of
           None \<Rightarrow> Inl (ValueError ''Nothing to subtract from'')
         | Some w \<Rightarrow> Inr (Some (clean_op (cut K w new_solids))))
      else if mode = INTERSECTION then
        (case ws of
           None \<Rightarrow> Inl (ValueError ''Nothing to intersect with'')
         | Some w \<Rightarrow> Inr (Some (clean_op (intersect K w new_solids))))
      else Inr ws)"

text \<open>
  \<open>Build3D.place_solids(new_solids, mode, clean)\<close>. After the chain the method reads
  \<open>self.working_solid.Vertices()\<close>, which raises \<open>AttributeError\<close> when the working
  solid is still \<open>None\<close>.
\<close>

definition place_solids ::
  "('s, 'l, 'p) kernel \<Rightarrow> 's Build3D \<Rightarrow> 's list \<Rightarrow> cq3_Mode \<Rightarrow> bool
     \<Rightarrow> (error \<times> 's Build3D) + 's Build3D" where
  "place_solids K self new_solids mode clean_flag =
     (let clean_op = (if clean_flag then clean K else (\<lambda>s. s));
          before_vertices = snapshot (Vertices K) (working_solid self);
          before_edges = snapshot (Edges K) (working_solid self);
          before_faces = snapshot (Faces K) (working_solid self)
      in case combine_solids K clean_op (working_solid self) new_solids mode of
           Inl e \<Rightarrow> Inl (e, self)
         | Inr None \<Rightarrow> Inl (AttributeError, self)
         | Inr (Some w) \<Rightarrow>
             Inr (self\<lparr>working_solid := Some w,
                   last_operation := (last_operation self)
                     (VERTEX \<mapsto> set (Vertices K w) - before_vertices,
                      EDGE \<mapsto> set (Edges K w) - before_edges,
                      FACE \<mapsto> set (Faces K w) - before_faces)\<rparr>))"

text \<open>
  The fields of a \<open>Build2D\<close> instance that \<open>place_face\<close> reads and writes, and its
  \<open>pending_edges\<close> (here \<open>pending_edges_2d\<close>), which \<open>place_face\<close> leaves alone.
\<close>

record ('s, 'l) Build2D =
  working_surface :: 's
  pending_edges_2d :: "'s list"
  locations :: "'l list"

text \<open>
  \<open>Build2D.place_face(face, mode)\<close>: the builder after the call and the returned
  \<open>new_faces\<close>. The final \<open>else: raise ValueError\<close> is not reachable with a member of
  the enumeration.
\<close>

definition place_face ::
  "('s, 'l, 'p) kernel \<Rightarrow> ('s, 'l) Build2D \<Rightarrow> 's \<Rightarrow> cq3_Mode \<Rightarrow> ('s, 'l) Build2D \<times> 's list" where
  "place_face K self face mode =
     (let locs = (if locations self = [] then [Location_of K (0, 0, 0)] else locations self);
          new_faces = map (located K face) locs;
          surface =
            (if mode = ADDITION then clean K (fuse K (working_surface self) new_faces)
             else if mode = SUBTRACTION then clean K (cut K (working_surface self) new_faces)
             else if mode = INTERSECTION then
               clean K (intersect K (working_surface self) new_faces)
             else working_surface self)
      in (self\<lparr>working_surface := surface, locations := []\<rparr>, new_faces))"

section \<open>Code of the repository that is not among the sources\<close>

text \<open>
  \<open>build_common.py\<close>, \<open>build_part.py\<close> and \<open>build_line.py\<close> are not among the
  sources. The current builder is a \<open>BuildSketch\<close>, whose code is modelled above, or
  a builder of another class, whose state is a value of the type \<open>'x\<close>.
\<close>

datatype ('s, 'x) Builder =
    BuildSketch_ctx "'s BuildSketch"
  | BuildPart_ctx 'x
  | BuildLine_ctx 'x
  | Other_ctx 'x

text \<open>
  What the modelled functions call of the missing files is a field of this record:
  \<open>validate_inputs(self, context, objects)\<close>, given the name of the calling class and
  yielding the exception it raises, if any; the list
  \<open>LocationList._get_context().locations\<close>; \<open>Builder.faces()\<close> on a sketch builder;
  and, for a builder of another class, its \<open>_add_to_context\<close>, its \<open>_obj\<close>, its
  \<open>part\<close>, its \<open>_add_to_pending\<close>, the assignment to its \<open>locations\<close> and the name
  of its class.
\<close>

record ('s, 'l, 'x) common =
  validate_inputs :: "string \<Rightarrow> ('s, 'x) Builder \<Rightarrow> 's pyobj list \<Rightarrow> error option"
  active_locations :: "'l list"
  Builder_faces :: "'s BuildSketch \<Rightarrow> 's list"
  ext_add_to_context :: "'x \<Rightarrow> 's pyobj list \<Rightarrow> Mode \<Rightarrow> (error \<times> 'x) + 'x"
  ext_obj :: "'x \<Rightarrow> 's pyobj"
  part_of :: "'x \<Rightarrow> 's pyobj"
  add_to_pending :: "'x \<Rightarrow> 's list \<Rightarrow> 'x"
  set_locations :: "'x \<Rightarrow> 'l list \<Rightarrow> 'x"
  class_name :: "'x \<Rightarrow> string"

text \<open>\<open>context._add_to_context(*objects, mode=mode)\<close>, dispatched on the builder's class.\<close>

definition ctx_add_to_context ::
  "('s, 'l, 'x) common \<Rightarrow> ('s, 'l, 'p) kernel \<Rightarrow> ('s, 'x) Builder \<Rightarrow> 's pyobj list \<Rightarrow> Mode
     \<Rightarrow> (error \<times> ('s, 'x) Builder) + ('s, 'x) Builder" where
  "ctx_add_to_context C K context objects mode =
     (case context of
        BuildSketch_ctx b \<Rightarrow>
          map_sum (map_prod id BuildSketch_ctx) BuildSketch_ctx (add_to_context K b objects mode)
      | BuildPart_ctx x \<Rightarrow>
          map_sum (map_prod id BuildPart_ctx) BuildPart_ctx (ext_add_to_context C x objects mode)
      | BuildLine_ctx x \<Rightarrow>
          map_sum (map_prod id BuildLine_ctx) BuildLine_ctx (ext_add_to_context C x objects mode)
      | Other_ctx x \<Rightarrow>
          map_sum (map_prod id Other_ctx) Other_ctx (ext_add_to_context C x objects mode))"

text \<open>\<open>context._obj\<close>; for a sketch builder it is \<open>self.sketch\<close>, which may be \<open>None\<close>.\<close>

definition ctx_obj :: "('s, 'l, 'x) common \<Rightarrow> ('s, 'x) Builder \<Rightarrow> 's pyobj" where
  "ctx_obj C context =
     (case context of
        BuildSketch_ctx b \<Rightarrow> (case sketch b of None \<Rightarrow> NoneObj | Some s \<Rightarrow> Shape s)
      | BuildPart_ctx x \<Rightarrow> ext_obj C x
      | BuildLine_ctx x \<Rightarrow> ext_obj C x
      | Other_ctx x \<Rightarrow> ext_obj C x)"

definition ctx_class_name :: "('s, 'l, 'x) common \<Rightarrow> ('s, 'x) Builder \<Rightarrow> string" where
  "ctx_class_name C context =
     (case context of
        BuildSketch_ctx b \<Rightarrow> ''BuildSketch''
      | BuildPart_ctx x \<Rightarrow> ''BuildPart''
      | BuildLine_ctx x \<Rightarrow> ''BuildLine''
      | Other_ctx x \<Rightarrow> class_name C x)"

text \<open>
  A keyword parameter with a default value: the argument is \<open>None\<close> when the caller
  leaves the keyword out, and then the default of the signature is used.
\<close>

definition kwarg :: "'a \<Rightarrow> 'a option \<Rightarrow> 'a" where
  "kwarg dflt arg = (case arg of None \<Rightarrow> dflt | Some v \<Rightarrow> v)"

text \<open>A method call on each object: \<open>AttributeError\<close> on one that is not a shape.\<close>

fun each_shape :: "('s \<Rightarrow> 'a) \<Rightarrow> 's pyobj list \<Rightarrow> error + 'a list" where
  "each_shape f [] = Inr []"
| "each_shape f (Shape s # objs) =
     (case each_shape f objs of Inl e \<Rightarrow> Inl e | Inr ys \<Rightarrow> Inr (f s # ys))"
| "each_shape f (NoneObj # objs) = Inl AttributeError"
| "each_shape f (ModeObj m # objs) = Inl AttributeError"

section \<open>Sketch operations and objects (build\_sketch.py)\<close>

text \<open>\<open>for face in new_faces: context._add_to_context(face, mode=mode)\<close>\<close>

fun add_each ::
  "('s, 'l, 'p) kernel \<Rightarrow> 's BuildSketch \<Rightarrow> 's list \<Rightarrow> Mode
     \<Rightarrow> (error \<times> 's BuildSketch) + 's BuildSketch" where
  "add_each K context [] mode = Inr context"
| "add_each K context (face # faces) mode =
     (case add_to_context K context [Shape face] mode of
        Inl r \<Rightarrow> Inl r
      | Inr context' \<Rightarrow> add_each K context' faces mode)"

text \<open>
  \<open>BuildFace(*edges, mode)\<close>. The call \<open>context._add_to_context(pending_face, mode)\<close>
  passes \<open>mode\<close> positionally, so it is the second of the \<open>*objects\<close> and the keyword
  \<open>mode\<close> of the merge keeps its default \<open>Mode.ADD\<close>. The result is the builder and
  the face that the new object wraps.
\<close>

definition BuildFace ::
  "('s, 'l, 'x) common \<Rightarrow> ('s, 'l, 'p) kernel \<Rightarrow> 's BuildSketch \<Rightarrow> 's list \<Rightarrow> Mode option
     \<Rightarrow> (error \<times> 's BuildSketch) + ('s BuildSketch \<times> 's)" where
  "BuildFace C K context edges mode_arg =
     (case validate_inputs C ''BuildFace'' (BuildSketch_ctx context) (map Shape edges) of
        Some e \<Rightarrow> Inl (e, context)
      | None \<Rightarrow>
          (let mode = kwarg ADD mode_arg;
               outer_edges = (if edges \<noteq> [] then edges else pending_edges context)
           in case combine K outer_edges of
                [] \<Rightarrow> Inl (IndexError, context)
              | wire # wires \<Rightarrow>
                  (let pending_face = makeFromWires K wire
                   in case add_to_context K context [Shape pending_face, ModeObj mode] ADD of
                        Inl r \<Rightarrow> Inl r
                      | Inr context' \<Rightarrow>
                          Inr (context'\<lparr>pending_edges := []\<rparr>, pending_face))))"

text \<open>\<open>BuildHull(*edges, mode)\<close>, with the same positional \<open>mode\<close>.\<close>

definition BuildHull ::
  "('s, 'l, 'x) common \<Rightarrow> ('s, 'l, 'p) kernel \<Rightarrow> 's BuildSketch \<Rightarrow> 's list \<Rightarrow> Mode option
     \<Rightarrow> (error \<times> 's BuildSketch) + ('s BuildSketch \<times> 's)" where
  "BuildHull C K context edges mode_arg =
     (case validate_inputs C ''BuildHull'' (BuildSketch_ctx context) (map Shape edges) of
        Some e \<Rightarrow> Inl (e, context)
      | None \<Rightarrow>
          (let mode = kwarg ADD mode_arg;
               hull_edges = (if edges \<noteq> [] then edges else pending_edges context);
               pending_face = makeFromWires K (find_hull K hull_edges)
           in case add_to_context K context [Shape pending_face, ModeObj mode] ADD of
                Inl r \<Rightarrow> Inl r
              | Inr context' \<Rightarrow> Inr (context'\<lparr>pending_edges := []\<rparr>, pending_face)))"

text \<open>The list \<open>new_faces\<close> of \<open>Circle\<close>: the circle's face moved to each location.\<close>

definition Circle_faces ::
  "('s, 'l, 'p) kernel \<Rightarrow> 'l list \<Rightarrow> real \<Rightarrow> bool \<times> bool \<Rightarrow> 's list" where
  "Circle_faces K locs radius centered =
     (let center_offset =
            (if fst centered then 0 else radius, if snd centered then 0 else radius, 0);
          face = locate K (makeFromWires K (makeCircle K radius (0, 0, 0) (0, 0, 1)))
                   (Location_of K center_offset)
      in map (moved K face) locs)"

text \<open>\<open>Circle(radius, centered, mode)\<close>\<close>

definition Circle ::
  "('s, 'l, 'x) common \<Rightarrow> ('s, 'l, 'p) kernel \<Rightarrow> 's BuildSketch \<Rightarrow> real \<Rightarrow> bool \<times> bool
     \<Rightarrow> Mode option \<Rightarrow> (error \<times> 's BuildSketch) + ('s BuildSketch \<times> 's)" where
  "Circle C K context radius centered mode_arg =
     (case validate_inputs C ''Circle'' (BuildSketch_ctx context) [] of
        Some e \<Rightarrow> Inl (e, context)
      | None \<Rightarrow>
          (let mode = kwarg ADD mode_arg;
               new_faces = Circle_faces K (active_locations C) radius centered
           in case add_each K context new_faces mode of
                Inl r \<Rightarrow> Inl r
              | Inr context' \<Rightarrow> Inr (context', makeCompound K new_faces)))"

section \<open>Generic objects and operations (build\_generic.py)\<close>

text \<open>
  The result of each class below is the exception with the builder as it is then, or
  the builder after the call with the shape that the new object wraps.
\<close>

type_synonym ('s, 'x) op_result =
  "(error \<times> ('s, 'x) Builder) + (('s, 'x) Builder \<times> 's)"

text \<open>The merge that ends an operation, and the compound of its new objects.\<close>

definition merge_new ::
  "('s, 'l, 'x) common \<Rightarrow> ('s, 'l, 'p) kernel \<Rightarrow> ('s, 'x) Builder \<Rightarrow> 's list \<Rightarrow> Mode
     \<Rightarrow> ('s, 'x) op_result" where
  "merge_new C K context new_objects mode =
     (case ctx_add_to_context C K context (map Shape new_objects) mode of
        Inl r \<Rightarrow> Inl r
      | Inr context' \<Rightarrow> Inr (context', makeCompound K new_objects))"

definition unsupported :: "('s, 'l, 'x) common \<Rightarrow> string \<Rightarrow> ('s, 'x) Builder \<Rightarrow> error" where
  "unsupported C name context =
     RuntimeError (name @ '' does not support builder '' @ ctx_class_name C context)"

subsection \<open>Add\<close>

text \<open>The argument \<open>rotation\<close>: \<open>None\<close>, a number, a tuple or a \<open>Rotation\<close>.\<close>

datatype 'l rotation_arg = Rot_None | Rot_number real | Rot_tuple vec | Rot_Rotation 'l

text \<open>
  \<open>[obj.moved(rotate) for obj in objects if isinstance(obj, Solid)]\<close>, where \<open>rotate\<close>
  is the number itself when \<open>rotation\<close> is a number.
\<close>

definition Add_rotated_solids ::
  "('s, 'l, 'p) kernel \<Rightarrow> 's pyobj list \<Rightarrow> 'l rotation_arg \<Rightarrow> error + 's list" where
  "Add_rotated_solids K objects rotation =
     (case rotation of
        Rot_None \<Rightarrow> Inr (map (\<lambda>obj. moved K obj (Rotation K (0, 0, 0))) (instances K Solid objects))
      | Rot_tuple v \<Rightarrow> Inr (map (\<lambda>obj. moved K obj (Rotation K v)) (instances K Solid objects))
      | Rot_Rotation l \<Rightarrow> Inr (map (\<lambda>obj. moved K obj l) (instances K Solid objects))
      | Rot_number r \<Rightarrow> (if instances K Solid objects = [] then Inr [] else Inl KernelError))"

text \<open>\<open>[solid.moved(location) for solid in new_solids for location in locations]\<close>\<close>

definition Add_located_solids :: "('s, 'l, 'p) kernel \<Rightarrow> 'l list \<Rightarrow> 's list \<Rightarrow> 's list" where
  "Add_located_solids K locs new_solids =
     concat (map (\<lambda>solid. map (\<lambda>location. moved K solid location) locs) new_solids)"

text \<open>
  The loop of the sketch and line branch: each object, rotated about the Z axis, is
  moved to each location.
\<close>

fun Add_located ::
  "('s, 'l, 'p) kernel \<Rightarrow> 'l list \<Rightarrow> real \<Rightarrow> 's pyobj list \<Rightarrow> error + 's list" where
  "Add_located K locs angle [] = Inr []"
| "Add_located K locs angle (obj # objs) =
     (if locs = [] then Add_located K locs angle objs
      else (case obj of
              Shape s \<Rightarrow>
                (case Add_located K locs angle objs of
                   Inl e \<Rightarrow> Inl e
                 | Inr rest \<Rightarrow>
                     Inr (map (\<lambda>location.
                                 moved K (rotate_about K s (0, 0, 0) (0, 0, 1) angle) location)
                            locs @ rest))
            | NoneObj \<Rightarrow> Inl AttributeError
            | ModeObj m \<Rightarrow> Inl AttributeError))"

definition Add ::
  "('s, 'l, 'x) common \<Rightarrow> ('s, 'l, 'p) kernel \<Rightarrow> ('s, 'x) Builder \<Rightarrow> 's pyobj list
     \<Rightarrow> 'l rotation_arg \<Rightarrow> Mode option \<Rightarrow> ('s, 'x) op_result" where
  "Add C K context objects rotation mode_arg =
     (case validate_inputs C ''Add'' context objects of
        Some e \<Rightarrow> Inl (e, context)
      | None \<Rightarrow>
          (let mode = kwarg ADD mode_arg;
               rotation_angle = (case rotation of Rot_number r \<Rightarrow> r | _ \<Rightarrow> 0);
               sketch_or_line =
                 (case Add_located K (active_locations C) rotation_angle objects of
                    Inl e \<Rightarrow> Inl (e, context)
                  | Inr new_objects \<Rightarrow> merge_new C K context new_objects mode)
           in case context of
                BuildPart_ctx x \<Rightarrow>
                  (case Add_rotated_solids K objects rotation of
                     Inl e \<Rightarrow> Inl (e, context)
                   | Inr rotated \<Rightarrow>
                       (let new_faces = parse_objects K Face objects;
                            new_solids = rotated @ concat (map (\<lambda>c. get_type K c Solid)
                                                            (instances K Compound objects));
                            new_edges = instances K Edge objects
                                          @ concat (map (Edges K) (instances K Wire objects));
                            x1 = add_to_pending C (add_to_pending C x new_faces) new_edges;
                            new_objects = Add_located_solids K (active_locations C) new_solids;
                            x2 = set_locations C x1 [Location_of K (0, 0, 0)]
                        in merge_new C K (BuildPart_ctx x2) new_objects mode))
              | BuildLine_ctx x \<Rightarrow> sketch_or_line
              | BuildSketch_ctx b \<Rightarrow> sketch_or_line
              | Other_ctx x \<Rightarrow> Inl (unsupported C ''Add'' context, context)))"

subsection \<open>BoundingBox\<close>

fun BoundingBox_solids :: "('s, 'l, 'p) kernel \<Rightarrow> 's pyobj list \<Rightarrow> error + 's list" where
  "BoundingBox_solids K [] = Inr []"
| "BoundingBox_solids K (Shape s # objs) =
     (if type_of K s = Vertex then BoundingBox_solids K objs
      else (case BoundingBox_solids K objs of
              Inl e \<Rightarrow> Inl e
            | Inr rest \<Rightarrow>
                (let bounding_box = BoundingBox_of K s
                 in Inr (makeBox K (xlen bounding_box) (ylen bounding_box) (zlen bounding_box)
                           (xmin bounding_box, ymin bounding_box, zmin bounding_box) # rest))))"
| "BoundingBox_solids K (NoneObj # objs) = Inl AttributeError"
| "BoundingBox_solids K (ModeObj m # objs) = Inl AttributeError"

fun BoundingBox_faces :: "('s, 'l, 'p) kernel \<Rightarrow> 's pyobj list \<Rightarrow> error + 's list" where
  "BoundingBox_faces K [] = Inr []"
| "BoundingBox_faces K (Shape s # objs) =
     (if type_of K s = Vertex then BoundingBox_faces K objs
      else (case BoundingBox_faces K objs of
              Inl e \<Rightarrow> Inl e
            | Inr rest \<Rightarrow>
                (let bounding_box = BoundingBox_of K s;
                     vertices =
                       [(xmin bounding_box, ymin bounding_box, 0),
                        (xmin bounding_box, ymax bounding_box, 0),
                        (xmax bounding_box, ymax bounding_box, 0),
                        (xmax bounding_box, ymin bounding_box, 0),
                        (xmin bounding_box, ymin bounding_box, 0)]
                 in Inr (makeFromWires K (makePolygon K vertices) # rest))))"
| "BoundingBox_faces K (NoneObj # objs) = Inl AttributeError"
| "BoundingBox_faces K (ModeObj m # objs) = Inl AttributeError"

definition BoundingBox ::
  "('s, 'l, 'x) common \<Rightarrow> ('s, 'l, 'p) kernel \<Rightarrow> ('s, 'x) Builder \<Rightarrow> 's pyobj list
     \<Rightarrow> Mode option \<Rightarrow> ('s, 'x) op_result" where
  "BoundingBox C K context objects mode_arg =
     (case validate_inputs C ''BoundingBox'' context objects of
        Some e \<Rightarrow> Inl (e, context)
      | None \<Rightarrow>
          (let mode = kwarg ADD mode_arg
           in case context of
                BuildPart_ctx x \<Rightarrow>
                  (case BoundingBox_solids K objects of
                     Inl e \<Rightarrow> Inl (e, context)
                   | Inr new_objects \<Rightarrow> merge_new C K context new_objects mode)
              | BuildSketch_ctx b \<Rightarrow>
                  (case BoundingBox_faces K objects of
                     Inl e \<Rightarrow> Inl (e, context)
                   | Inr new_faces \<Rightarrow>
                       (case add_each K b new_faces mode of
                          Inl (e, b') \<Rightarrow> Inl (e, BuildSketch_ctx b')
                        | Inr b' \<Rightarrow> Inr (BuildSketch_ctx b', makeCompound K new_faces)))
              | BuildLine_ctx x \<Rightarrow> Inl (unsupported C ''BoundingBox'' context, context)
              | Other_ctx x \<Rightarrow> Inl (unsupported C ''BoundingBox'' context, context)))"

subsection \<open>Chamfer and Fillet\<close>

text \<open>
  The loop over \<open>context.faces()\<close> of the sketch branch, with the kernel's 2D operation
  as \<open>op2D\<close>: a face is replaced when one of its vertices is among the objects.
\<close>

definition per_face ::
  "('s, 'l, 'p) kernel \<Rightarrow> ('s \<Rightarrow> 's list \<Rightarrow> 's) \<Rightarrow> 's pyobj list \<Rightarrow> 's list \<Rightarrow> 's list" where
  "per_face K op2D objects faces =
     map (\<lambda>face.
            (let vertices_in_face = filter (\<lambda>v. Shape v \<in> set objects) (Vertices K face)
             in if vertices_in_face \<noteq> [] then op2D face vertices_in_face else face))
         faces"

definition Chamfer ::
  "('s, 'l, 'x) common \<Rightarrow> ('s, 'l, 'p) kernel \<Rightarrow> ('s, 'x) Builder \<Rightarrow> 's pyobj list
     \<Rightarrow> real \<Rightarrow> real option \<Rightarrow> ('s, 'x) op_result" where
  "Chamfer C K context objects length1 length2 =
     (case validate_inputs C ''Chamfer'' context objects of
        Some e \<Rightarrow> Inl (e, context)
      | None \<Rightarrow>
          (case context of
             BuildPart_ctx x \<Rightarrow>
               (case part_of C x of
                  Shape part \<Rightarrow>
                    (let new_part = chamfer K part length1 length2 objects
                     in case ctx_add_to_context C K context [Shape new_part] REPLACE of
                          Inl r \<Rightarrow> Inl r
                        | Inr context' \<Rightarrow> Inr (context', new_part))
                | NoneObj \<Rightarrow> Inl (AttributeError, context)
                | ModeObj m \<Rightarrow> Inl (AttributeError, context))
           | BuildSketch_ctx b \<Rightarrow>
               (let new_faces =
                      per_face K (\<lambda>face vs. chamfer2D K face length1 vs) objects
                        (Builder_faces C b);
                    new_sketch = makeCompound K new_faces
                in case ctx_add_to_context C K context [Shape new_sketch] REPLACE of
                     Inl r \<Rightarrow> Inl r
                   | Inr context' \<Rightarrow> Inr (context', new_sketch))
           | BuildLine_ctx x \<Rightarrow> Inl (unsupported C ''Chamfer'' context, context)
           | Other_ctx x \<Rightarrow> Inl (unsupported C ''Chamfer'' context, context)))"

definition Fillet ::
  "('s, 'l, 'x) common \<Rightarrow> ('s, 'l, 'p) kernel \<Rightarrow> ('s, 'x) Builder \<Rightarrow> 's pyobj list
     \<Rightarrow> real \<Rightarrow> ('s, 'x) op_result" where
  "Fillet C K context objects radius =
     (case validate_inputs C ''Fillet'' context objects of
        Some e \<Rightarrow> Inl (e, context)
      | None \<Rightarrow>
          (case context of
             BuildPart_ctx x \<Rightarrow>
               (case part_of C x of
                  Shape part \<Rightarrow>
                    (let new_part = fillet K part radius objects
                     in case ctx_add_to_context C K context [Shape new_part] REPLACE of
                          Inl r \<Rightarrow> Inl r
                        | Inr context' \<Rightarrow> Inr (context', new_part))
                | NoneObj \<Rightarrow> Inl (AttributeError, context)
                | ModeObj m \<Rightarrow> Inl (AttributeError, context))
           | BuildSketch_ctx b \<Rightarrow>
               (let new_faces =
                      per_face K (\<lambda>face vs. fillet2D K face radius vs) objects
                        (Builder_faces C b);
                    new_sketch = makeCompound K new_faces
                in case ctx_add_to_context C K context [Shape new_sketch] REPLACE of
                     Inl r \<Rightarrow> Inl r
                   | Inr context' \<Rightarrow> Inr (context', new_sketch))
           | BuildLine_ctx x \<Rightarrow> Inl (unsupported C ''Fillet'' context, context)
           | Other_ctx x \<Rightarrow> Inl (unsupported C ''Fillet'' context, context)))"

subsection \<open>Mirror\<close>

text \<open>A \<open>PlaneLike\<close> argument: a plane, or the name of one.\<close>

datatype 'p PlaneLike = Plane_obj 'p | Plane_name string

definition as_plane :: "('s, 'l, 'p) kernel \<Rightarrow> 'p PlaneLike \<Rightarrow> 'p" where
  "as_plane K about = (case about of Plane_obj p \<Rightarrow> p | Plane_name n \<Rightarrow> Plane_named K n)"

text \<open>
  \<open>if not objects: objects = [context._obj]\<close>, the first statement after the
  validation in \<open>Mirror\<close>, \<open>Offset\<close>, \<open>Scale\<close> and \<open>Split\<close>.
\<close>

definition default_objects ::
  "('s, 'l, 'x) common \<Rightarrow> ('s, 'x) Builder \<Rightarrow> 's pyobj list \<Rightarrow> 's pyobj list" where
  "default_objects C context objects = (if objects = [] then [ctx_obj C context] else objects)"

text \<open>The objects handed to a kernel primitive that takes a shape.\<close>

fun kernel_shapes :: "('s \<Rightarrow> 'a) \<Rightarrow> 's pyobj list \<Rightarrow> error + 'a list" where
  "kernel_shapes f [] = Inr []"
| "kernel_shapes f (Shape s # objs) =
     (case kernel_shapes f objs of Inl e \<Rightarrow> Inl e | Inr ys \<Rightarrow> Inr (f s # ys))"
| "kernel_shapes f (NoneObj # objs) = Inl KernelError"
| "kernel_shapes f (ModeObj m # objs) = Inl KernelError"

definition Mirror ::
  "('s, 'l, 'x) common \<Rightarrow> ('s, 'l, 'p) kernel \<Rightarrow> ('s, 'x) Builder \<Rightarrow> 's pyobj list
     \<Rightarrow> 'p PlaneLike \<Rightarrow> Mode option \<Rightarrow> ('s, 'x) op_result" where
  "Mirror C K context objects about mode_arg =
     (case validate_inputs C ''Mirror'' context objects of
        Some e \<Rightarrow> Inl (e, context)
      | None \<Rightarrow>
          (let mode = kwarg ADD mode_arg;
               objects = default_objects C context objects;
               mirror_plane = as_plane K about;
               scale_matrix =
                 [[1, 0, 0, 0], [0, 1, 0, 0], [0, 0, - 1, 0], [0, 0, 0, 1]]
           in case kernel_shapes
                     (\<lambda>obj. fromLocalCoords K mirror_plane
                              (transformGeometry K (toLocalCoords K mirror_plane obj)
                                 scale_matrix))
                     objects of
                Inl e \<Rightarrow> Inl (e, context)
              | Inr mirrored \<Rightarrow> merge_new C K context mirrored mode))"

subsection \<open>Offset\<close>

definition Kind_name_lower :: "Kind \<Rightarrow> string" where
  "Kind_name_lower kind = (case kind of ARC \<Rightarrow> ''arc'' | Kind_INTERSECTION \<Rightarrow> ''intersection'')"

text \<open>
  The classification loop of \<open>Offset\<close>, for one of the classes \<open>Edge\<close>, \<open>Face\<close> and
  \<open>Solid\<close>: a compound contributes what \<open>get_type\<close> finds in it, an object of the
  class itself, and any other object nothing.
\<close>

fun classify :: "('s, 'l, 'p) kernel \<Rightarrow> shape_type \<Rightarrow> 's pyobj list \<Rightarrow> 's list" where
  "classify K T [] = []"
| "classify K T (Shape s # objs) =
     (if type_of K s = Compound then get_type K s T @ classify K T objs
      else if type_of K s = T then s # classify K T objs
      else classify K T objs)"
| "classify K T (NoneObj # objs) = classify K T objs"
| "classify K T (ModeObj m # objs) = classify K T objs"

text \<open>
  \<open>Face.makeFromWires(face.outerWire().offset2D(amount, kind)[0])\<close> for each face;
  the index raises \<open>IndexError\<close> on an empty list.
\<close>

fun offset_faces ::
  "('s, 'l, 'p) kernel \<Rightarrow> real \<Rightarrow> string \<Rightarrow> 's list \<Rightarrow> error + 's list" where
  "offset_faces K amount kind [] = Inr []"
| "offset_faces K amount kind (face # faces) =
     (case offset2D K (outerWire K face) amount kind of
        [] \<Rightarrow> Inl IndexError
      | wire # wires \<Rightarrow>
          (case offset_faces K amount kind faces of
             Inl e \<Rightarrow> Inl e
           | Inr new_faces \<Rightarrow> Inr (makeFromWires K wire # new_faces)))"

text \<open>The block \<open>if edges: ... else: new_wires = []\<close>.\<close>

definition offset_edges ::
  "('s, 'l, 'p) kernel \<Rightarrow> real \<Rightarrow> string \<Rightarrow> 's list \<Rightarrow> error + 's list" where
  "offset_edges K amount kind edges =
     (if edges \<noteq> [] then
        (if length edges = 1 then Inl (ValueError ''At least two edges are required'')
         else Inr (offset2D K (assembleEdges K edges) amount kind))
      else Inr [])"

definition shell_solids ::
  "('s, 'l, 'p) kernel \<Rightarrow> real \<Rightarrow> string \<Rightarrow> 's list \<Rightarrow> 's list \<Rightarrow> 's list" where
  "shell_solids K amount kind openings solids =
     map (\<lambda>solid.
            (let openings_in_this_solid =
                   (if openings \<noteq> [] then filter (\<lambda>opening. opening \<in> set (Faces K solid)) openings
                    else [])
             in fix_shape K (shell K solid openings_in_this_solid amount kind)))
         solids"

text \<open>
  \<open>Offset(*objects, amount, openings, kind, mode)\<close>. The argument \<open>openings\<close> is the
  list of faces it stands for: empty for \<open>None\<close>, one face for a single \<open>Face\<close>.
\<close>

definition Offset ::
  "('s, 'l, 'x) common \<Rightarrow> ('s, 'l, 'p) kernel \<Rightarrow> ('s, 'x) Builder \<Rightarrow> 's pyobj list
     \<Rightarrow> real \<Rightarrow> 's list \<Rightarrow> Kind \<Rightarrow> Mode option \<Rightarrow> ('s, 'x) op_result" where
  "Offset C K context objects amount openings kind mode_arg =
     (case validate_inputs C ''Offset'' context objects of
        Some e \<Rightarrow> Inl (e, context)
      | None \<Rightarrow>
          (let mode = kwarg REPLACE mode_arg;
               objects = default_objects C context objects;
               edges = classify K Edge objects;
               faces = classify K Face objects;
               solids = classify K Solid objects
           in case offset_faces K amount (Kind_name_lower kind) faces of
                Inl e \<Rightarrow> Inl (e, context)
              | Inr new_faces \<Rightarrow>
                  (case offset_edges K amount (Kind_name_lower kind) edges of
                     Inl e \<Rightarrow> Inl (e, context)
                   | Inr new_wires \<Rightarrow>
                       (let new_solids =
                              shell_solids K amount (Kind_name_lower kind) openings solids;
                            new_objects = new_wires @ new_faces @ new_solids
                        in merge_new C K context new_objects mode))))"

subsection \<open>Scale\<close>

text \<open>The argument \<open>by\<close>: a number, a tuple of three numbers, or anything else.\<close>

datatype scale_by = By_number real | By_tuple vec | By_other

definition Scale ::
  "('s, 'l, 'x) common \<Rightarrow> ('s, 'l, 'p) kernel \<Rightarrow> ('s, 'x) Builder \<Rightarrow> 's pyobj list
     \<Rightarrow> scale_by \<Rightarrow> Mode option \<Rightarrow> ('s, 'x) op_result" where
  "Scale C K context objects by mode_arg =
     (case validate_inputs C ''Scale'' context objects of
        Some e \<Rightarrow> Inl (e, context)
      | None \<Rightarrow>
          (let mode = kwarg REPLACE mode_arg;
               objects = default_objects C context objects
           in case (case by of
                      By_number r \<Rightarrow> Inr (r, r, r)
                    | By_tuple v \<Rightarrow> Inr v
                    | By_other \<Rightarrow>
                        Inl (ValueError ''by must be a float or a three tuple of float'')) of
                Inl e \<Rightarrow> Inl (e, context)
              | Inr (x, y, z) \<Rightarrow>
                  (let scale_matrix =
                         [[x, 0, 0, 0], [0, y, 0, 0], [0, 0, z, 0], [0, 0, 0, 1]]
                   in case each_shape
                             (\<lambda>obj. locate K
                                      (transformGeometry K
                                         (located K obj (Location_of K (0, 0, 0))) scale_matrix)
                                      (location K obj))
                             objects of
                        Inl e \<Rightarrow> Inl (e, context)
                      | Inr new_objects \<Rightarrow> merge_new C K context new_objects mode)))"

subsection \<open>Split\<close>

text \<open>The local function \<open>build_cutter(keep, max_size)\<close> of \<open>Split.__init__\<close>.\<close>

definition build_cutter :: "('s, 'l, 'p) kernel \<Rightarrow> 'p \<Rightarrow> Keep \<Rightarrow> real \<Rightarrow> 's" where
  "build_cutter K bisect_plane keep max_size =
     (let cutter_center =
            (if keep = TOP then (- max_size, - max_size, 0)
             else (- max_size, - max_size, - 2 * max_size))
      in fromLocalCoords K bisect_plane
           (moved K (makeBox K (2 * max_size) (2 * max_size) (2 * max_size) (0, 0, 0))
              (Location_of K cutter_center)))"

text \<open>The body of the loop \<open>for obj in objects\<close>: the one object appended for \<open>obj\<close>.\<close>

definition split_object :: "('s, 'l, 'p) kernel \<Rightarrow> 'p \<Rightarrow> Keep \<Rightarrow> 's \<Rightarrow> 's" where
  "split_object K bisect_plane keep obj =
     (let max_size = DiagonalLength (BoundingBox_of K obj);
          cutters =
            (if keep = BOTH then
               [build_cutter K bisect_plane TOP max_size,
                build_cutter K bisect_plane BOTTOM max_size]
             else [build_cutter K bisect_plane keep max_size])
      in intersect K obj cutters)"

definition Split ::
  "('s, 'l, 'x) common \<Rightarrow> ('s, 'l, 'p) kernel \<Rightarrow> ('s, 'x) Builder \<Rightarrow> 's pyobj list
     \<Rightarrow> 'p PlaneLike \<Rightarrow> Keep \<Rightarrow> Mode option \<Rightarrow> ('s, 'x) op_result" where
  "Split C K context objects bisect_by keep mode_arg =
     (case validate_inputs C ''Split'' context objects of
        Some e \<Rightarrow> Inl (e, context)
      | None \<Rightarrow>
          (let mode = kwarg REPLACE mode_arg;
               objects = default_objects C context objects;
               bisect_plane = as_plane K bisect_by
           in case each_shape (split_object K bisect_plane keep) objects of
                Inl e \<Rightarrow> Inl (e, context)
              | Inr new_objects \<Rightarrow> merge_new C K context new_objects mode))"

section \<open>A small concrete kernel\<close>

text \<open>
  A kernel on which the definitions can be run: an atom of each kind carries a number, a
  face, an edge or a solid numbered \<open>n\<close> has the vertex, edge and face of that number,
  a compound lists its children, and a location is the number added by a move (0 for a
  point of the plane \<open>z = 0\<close>, 1 for any other).
\<close>

datatype tshape =
    TVertex nat
  | TEdge nat
  | TWire "nat list"
  | TFace nat
  | TSolid nat
  | TCompound "tshape list"

fun t_type_of :: "tshape \<Rightarrow> shape_type" where
  "t_type_of (TVertex n) = Vertex"
| "t_type_of (TEdge n) = Edge"
| "t_type_of (TWire ns) = Wire"
| "t_type_of (TFace n) = Face"
| "t_type_of (TSolid n) = Solid"
| "t_type_of (TCompound xs) = Compound"

fun t_Vertices :: "tshape \<Rightarrow> tshape list" where
  "t_Vertices (TVertex n) = [TVertex n]"
| "t_Vertices (TEdge n) = [TVertex n]"
| "t_Vertices (TWire ns) = map TVertex ns"
| "t_Vertices (TFace n) = [TVertex n]"
| "t_Vertices (TSolid n) = [TVertex n]"
| "t_Vertices (TCompound xs) = concat (map t_Vertices xs)"

fun t_Edges :: "tshape \<Rightarrow> tshape list" where
  "t_Edges (TVertex n) = []"
| "t_Edges (TEdge n) = [TEdge n]"
| "t_Edges (TWire ns) = map TEdge ns"
| "t_Edges (TFace n) = [TEdge n]"
| "t_Edges (TSolid n) = [TEdge n]"
| "t_Edges (TCompound xs) = concat (map t_Edges xs)"

fun t_Faces :: "tshape \<Rightarrow> tshape list" where
  "t_Faces (TVertex n) = []"
| "t_Faces (TEdge n) = []"
| "t_Faces (TWire ns) = []"
| "t_Faces (TFace n) = [TFace n]"
| "t_Faces (TSolid n) = [TFace n]"
| "t_Faces (TCompound xs) = concat (map t_Faces xs)"

fun t_children :: "tshape \<Rightarrow> tshape list" where
  "t_children (TCompound xs) = xs"
| "t_children s = [s]"

definition t_get_type :: "tshape \<Rightarrow> shape_type \<Rightarrow> tshape list" where
  "t_get_type c T = filter (\<lambda>x. t_type_of x = T) (t_children c)"

definition t_fuse :: "tshape \<Rightarrow> tshape list \<Rightarrow> tshape" where
  "t_fuse a bs = TCompound (t_children a @ bs)"

definition t_cut :: "tshape \<Rightarrow> tshape list \<Rightarrow> tshape" where
  "t_cut a bs = TCompound (filter (\<lambda>x. x \<notin> set bs) (t_children a))"

definition t_intersect :: "tshape \<Rightarrow> tshape list \<Rightarrow> tshape" where
  "t_intersect a bs = TCompound (filter (\<lambda>x. x \<in> set bs) (t_children a))"

fun t_moved :: "tshape \<Rightarrow> nat \<Rightarrow> tshape" where
  "t_moved (TVertex n) l = TVertex (n + l)"
| "t_moved (TEdge n) l = TEdge (n + l)"
| "t_moved (TWire ns) l = TWire (map (\<lambda>n. n + l) ns)"
| "t_moved (TFace n) l = TFace (n + l)"
| "t_moved (TSolid n) l = TSolid (n + l)"
| "t_moved (TCompound xs) l = TCompound (map (\<lambda>x. t_moved x l) xs)"

fun t_edge_numbers :: "tshape list \<Rightarrow> nat list" where
  "t_edge_numbers [] = []"
| "t_edge_numbers (TEdge n # es) = n # t_edge_numbers es"
| "t_edge_numbers (e # es) = t_edge_numbers es"

fun t_makeFromWires :: "tshape \<Rightarrow> tshape" where
  "t_makeFromWires (TWire (n # ns)) = TFace n"
| "t_makeFromWires s = TFace 0"

definition toy :: "(tshape, nat, nat) kernel" where
  "toy =
     \<lparr>type_of = t_type_of, Vertices = t_Vertices, Edges = t_Edges, Faces = t_Faces,
      get_type = t_get_type, makeCompound = TCompound, fuse = t_fuse, cut = t_cut,
      intersect = t_intersect, clean = (\<lambda>s. s), moved = t_moved, located = t_moved,
      Location_of = (\<lambda>(x, y, z). if z = 0 then 0 else 1),
      makeFromWires = t_makeFromWires,
      combine = (\<lambda>es. if es = [] then [] else [TWire (t_edge_numbers es)]),
      find_hull = (\<lambda>es. TWire (t_edge_numbers es)),
      makeCircle = (\<lambda>r c n. TWire [1]),
      locate = t_moved, location = (\<lambda>s. 0), Rotation = (\<lambda>v. 0),
      rotate_about = (\<lambda>s a b r. s),
      BoundingBox_of = (\<lambda>s. \<lparr>xmin = 0, ymin = 0, zmin = 0, xmax = 1, ymax = 1, zmax = 1,
                             xlen = 1, ylen = 1, zlen = 1, DiagonalLength = 2\<rparr>),
      makeBox = (\<lambda>a b c v. TSolid 7),
      makePolygon = (\<lambda>vs. TWire [8]),
      chamfer = (\<lambda>s a b os. s), fillet = (\<lambda>s r os. s),
      chamfer2D = (\<lambda>s a vs. s), fillet2D = (\<lambda>s r vs. s),
      Plane_named = (\<lambda>n. 0),
      toLocalCoords = (\<lambda>p s. s), fromLocalCoords = (\<lambda>p s. s),
      transformGeometry = (\<lambda>s m. t_moved s 100),
      outerWire = (\<lambda>s. TWire (t_edge_numbers (t_Edges s))),
      offset2D = (\<lambda>w a k. [t_moved w 50]),
      assembleEdges = (\<lambda>es. TWire (t_edge_numbers es)),
      shell = (\<lambda>s os a k. s), fix_shape = (\<lambda>s. s)\<rparr>"

text \<open>
  The missing code, for running the definitions: every input is valid, the locations
  are given, and a builder of another class is the pair of the list of the shapes merged
  into it and the list of the shapes added to its pending ones.
\<close>

fun shapes_in :: "'s pyobj list \<Rightarrow> 's list" where
  "shapes_in [] = []"
| "shapes_in (Shape s # objs) = s # shapes_in objs"
| "shapes_in (obj # objs) = shapes_in objs"

definition toy_common ::
  "nat list \<Rightarrow> (tshape, nat, tshape list \<times> tshape list) common" where
  "toy_common locs =
     \<lparr>validate_inputs = (\<lambda>name context objects. None),
      active_locations = locs,
      Builder_faces = (\<lambda>b. case sketch b of None \<Rightarrow> [] | Some s \<Rightarrow> t_Faces s),
      ext_add_to_context =
        (\<lambda>x objects mode. Inr (fst x @ shapes_in objects, snd x)),
      ext_obj = (\<lambda>x. Shape (TCompound (fst x))),
      part_of = (\<lambda>x. Shape (TCompound (fst x))),
      add_to_pending = (\<lambda>x shapes. (fst x, snd x @ shapes)),
      set_locations = (\<lambda>x ls. x),
      class_name = (\<lambda>x. ''TestBuilder'')\<rparr>"

definition sketch_one_face :: "tshape BuildSketch" where
  "sketch_one_face =
     \<lparr>sketch = Some (TCompound [TFace 1]), pending_edges = [],
      last_vertices = {TVertex 1}, last_edges = {TEdge 1}, last_faces = {TFace 1}\<rparr>"

definition part_empty :: "tshape Build3D" where
  "part_empty = \<lparr>working_solid = None, last_operation = Map.empty\<rparr>"

definition surface_one_face :: "(tshape, nat) Build2D" where
  "surface_one_face =
     \<lparr>working_surface = TCompound [TFace 1], pending_edges_2d = [], locations = [10, 20]\<rparr>"

definition sketch_staged :: "tshape BuildSketch" where
  "sketch_staged = BuildSketch_init\<lparr>pending_edges := [TEdge 7, TEdge 8]\<rparr>"

definition sketch_built :: "nat \<Rightarrow> tshape BuildSketch" where
  "sketch_built n =
     \<lparr>sketch = Some (TCompound [TFace n]), pending_edges = [],
      last_vertices = {TVertex n}, last_edges = {TEdge n}, last_faces = {TFace n}\<rparr>"

section \<open>Properties of the merges\<close>

lemmas toy_run =
  add_to_context_def parse_objects_def integrate_faces_def snapshot_def
  place_solids_def combine_solids_def place_face_def
  BuildSketch_init_def sketch_one_face_def part_empty_def surface_one_face_def
  toy_def t_get_type_def t_fuse_def t_cut_def t_intersect_def Let_def


lemma integrate_faces_no_faces: "integrate_faces K sk [] mode = Inr sk"
  by (simp add: integrate_faces_def)


lemma integrate_faces_replace:
  "new_faces \<noteq> [] \<Longrightarrow>
   integrate_faces K sk new_faces REPLACE = Inr (Some (clean K (makeCompound K new_faces)))"
  by (simp add: integrate_faces_def)

lemma integrate_faces_add:
  "\<exists>sk'. integrate_faces K sk new_faces ADD = Inr sk'"
  by (simp add: integrate_faces_def split: option.splits)

lemma add_to_context_Inr:
  "mode \<noteq> PRIVATE \<Longrightarrow>
   integrate_faces K (sketch self) (parse_objects K Face objects) mode = Inr sk \<Longrightarrow>
   add_to_context K self objects mode =
     Inr (self\<lparr>sketch := sk,
           last_vertices := snapshot (Vertices K) sk - snapshot (Vertices K) (sketch self),
           last_edges := snapshot (Edges K) sk - snapshot (Edges K) (sketch self),
           last_faces := snapshot (Faces K) sk - snapshot (Faces K) (sketch self),
           pending_edges := pending_edges self @ parse_objects K Edge objects
              @ concat (map (Edges K) (parse_objects K Wire objects))\<rparr>)"
  by (simp add: add_to_context_def Let_def)

lemma add_to_context_Inl:
  "mode \<noteq> PRIVATE \<Longrightarrow>
   integrate_faces K (sketch self) (parse_objects K Face objects) mode = Inl e \<Longrightarrow>
   add_to_context K self objects mode = Inl (e, self)"
  by (simp add: add_to_context_def Let_def)

lemma add_to_context_private: "add_to_context K self objects PRIVATE = Inr self"
  by (simp add: add_to_context_def)




text \<open>
  Claim C2, as amended. After a sketch merge that returns normally with a mode other than
  \<open>PRIVATE\<close>, and after a \<open>place_solids\<close> that returns normally, the three deltas are
  the set differences of the vertices, edges and faces of the result after and before the
  merge, the empty set standing for an empty result. A \<open>PRIVATE\<close> sketch merge leaves
  the deltas of the merge before it in place.
\<close>

theorem last_operation_delta:
  "(mode \<noteq> PRIVATE \<and> add_to_context K self objects mode = Inr self' \<longrightarrow>
      last_vertices self' =
        snapshot (Vertices K) (sketch self') - snapshot (Vertices K) (sketch self)
      \<and> last_edges self' =
        snapshot (Edges K) (sketch self') - snapshot (Edges K) (sketch self)
      \<and> last_faces self' =
        snapshot (Faces K) (sketch self') - snapshot (Faces K) (sketch self))
   \<and> (add_to_context K self objects PRIVATE = Inr self' \<longrightarrow>
      last_vertices self' = last_vertices self \<and> last_edges self' = last_edges self
      \<and> last_faces self' = last_faces self)
   \<and> (place_solids K3 part new_solids mode3 clean_flag = Inr part' \<longrightarrow>
      last_operation part' VERTEX =
        Some (snapshot (Vertices K3) (working_solid part')
              - snapshot (Vertices K3) (working_solid part))
      \<and> last_operation part' EDGE =
        Some (snapshot (Edges K3) (working_solid part')
              - snapshot (Edges K3) (working_solid part))
      \<and> last_operation part' FACE =
        Some (snapshot (Faces K3) (working_solid part')
              - snapshot (Faces K3) (working_solid part)))"
proof (intro conjI impI)
  assume a: "mode \<noteq> PRIVATE \<and> add_to_context K self objects mode = Inr self'"
  then obtain sk where
    sk: "integrate_faces K (sketch self) (parse_objects K Face objects) mode = Inr sk"
    by (cases "integrate_faces K (sketch self) (parse_objects K Face objects) mode")
       (auto simp: add_to_context_Inl)
  from a have eq: "self' = self\<lparr>sketch := sk,
           last_vertices := snapshot (Vertices K) sk - snapshot (Vertices K) (sketch self),
           last_edges := snapshot (Edges K) sk - snapshot (Edges K) (sketch self),
           last_faces := snapshot (Faces K) sk - snapshot (Faces K) (sketch self),
           pending_edges := pending_edges self @ parse_objects K Edge objects
              @ concat (map (Edges K) (parse_objects K Wire objects))\<rparr>"
    using add_to_context_Inr [OF _ sk] by simp
  show "last_vertices self' =
        snapshot (Vertices K) (sketch self') - snapshot (Vertices K) (sketch self)"
    by (simp add: eq)
  show "last_edges self' =
        snapshot (Edges K) (sketch self') - snapshot (Edges K) (sketch self)"
    by (simp add: eq)
  show "last_faces self' =
        snapshot (Faces K) (sketch self') - snapshot (Faces K) (sketch self)"
    by (simp add: eq)
next
  assume "add_to_context K self objects PRIVATE = Inr self'"
  then have "self' = self" by (simp add: add_to_context_private)
  then show "last_vertices self' = last_vertices self" "last_edges self' = last_edges self"
    "last_faces self' = last_faces self" by simp_all
next
  assume a: "place_solids K3 part new_solids mode3 clean_flag = Inr part'"
  then obtain w where
    w: "combine_solids K3 (if clean_flag then clean K3 else (\<lambda>s. s)) (working_solid part)
          new_solids mode3 = Inr (Some w)"
    by (auto simp: place_solids_def Let_def split: sum.splits option.splits)
  with a have eq: "part' = part\<lparr>working_solid := Some w,
                   last_operation := (last_operation part)
                     (VERTEX \<mapsto> set (Vertices K3 w) - snapshot (Vertices K3) (working_solid part),
                      EDGE \<mapsto> set (Edges K3 w) - snapshot (Edges K3) (working_solid part),
                      FACE \<mapsto> set (Faces K3 w) - snapshot (Faces K3) (working_solid part))\<rparr>"
    by (simp add: place_solids_def Let_def)
  show "last_operation part' VERTEX =
        Some (snapshot (Vertices K3) (working_solid part')
              - snapshot (Vertices K3) (working_solid part))"
    by (simp add: eq snapshot_def)
  show "last_operation part' EDGE =
        Some (snapshot (Edges K3) (working_solid part')
              - snapshot (Edges K3) (working_solid part))"
    by (simp add: eq snapshot_def)
  show "last_operation part' FACE =
        Some (snapshot (Faces K3) (working_solid part')
              - snapshot (Faces K3) (working_solid part))"
    by (simp add: eq snapshot_def)
qed

lemma run_add_face_2:
  "add_to_context toy sketch_one_face [Shape (TFace 2)] ADD =
     Inr \<lparr>sketch = Some (TCompound [TFace 1, TFace 2]), pending_edges = [],
          last_vertices = {TVertex 2}, last_edges = {TEdge 2}, last_faces = {TFace 2}\<rparr>"
  by (simp add: toy_run)

lemma run_place_solid:
  "place_solids toy part_empty [TSolid 1] ADDITION True =
     Inr \<lparr>working_solid = Some (TSolid 1),
          last_operation = [VERTEX \<mapsto> {TVertex 1}, EDGE \<mapsto> {TEdge 1}, FACE \<mapsto> {TFace 1}]\<rparr>"
  by (simp add: toy_run)

theorem last_operation_delta_witness:
  "add_to_context toy sketch_one_face [Shape (TFace 2)] ADD =
     Inr \<lparr>sketch = Some (TCompound [TFace 1, TFace 2]), pending_edges = [],
          last_vertices = {TVertex 2}, last_edges = {TEdge 2}, last_faces = {TFace 2}\<rparr>
   \<and> snapshot (Faces toy) (Some (TCompound [TFace 1, TFace 2]))
       - snapshot (Faces toy) (sketch sketch_one_face) = {TFace 2}
   \<and> add_to_context toy sketch_one_face [Shape (TFace 2)] PRIVATE = Inr sketch_one_face
   \<and> place_solids toy part_empty [TSolid 1] ADDITION True =
     Inr \<lparr>working_solid = Some (TSolid 1),
          last_operation = [VERTEX \<mapsto> {TVertex 1}, EDGE \<mapsto> {TEdge 1}, FACE \<mapsto> {TFace 1}]\<rparr>
   \<and> snapshot (Faces toy) (Some (TSolid 1)) - snapshot (Faces toy) (working_solid part_empty)
       = {TFace 1}"
  using last_operation_delta
    [where mode = ADD and K = toy and self = sketch_one_face
       and objects = "[Shape (TFace 2)]"
       and self' = "\<lparr>sketch = Some (TCompound [TFace 1, TFace 2]), pending_edges = [],
          last_vertices = {TVertex 2}, last_edges = {TEdge 2}, last_faces = {TFace 2}\<rparr>"
       and ?K3.0 = toy and part = part_empty and new_solids = "[TSolid 1]"
       and ?mode3.0 = ADDITION and clean_flag = True
       and part' = "\<lparr>working_solid = Some (TSolid 1),
          last_operation = [VERTEX \<mapsto> {TVertex 1}, EDGE \<mapsto> {TEdge 1}, FACE \<mapsto> {TFace 1}]\<rparr>"]
    run_add_face_2 run_place_solid
  by (simp add: add_to_context_private)

text \<open>
  Claim C2 as stated fails: after an \<open>ADD\<close> of one face into a fresh sketch builder,
  a \<open>PRIVATE\<close> merge returns with the delta of the \<open>ADD\<close> still in place, while the
  faces after and before the \<open>PRIVATE\<close> merge are the same.
\<close>

theorem last_operation_delta_counterexample:
  "add_to_context toy BuildSketch_init [Shape (TFace 1)] ADD = Inr sketch_one_face
   \<and> add_to_context toy sketch_one_face [Shape (TFace 2)] PRIVATE = Inr sketch_one_face
   \<and> last_faces sketch_one_face = {TFace 1}
   \<and> snapshot (Faces toy) (sketch sketch_one_face)
       - snapshot (Faces toy) (sketch sketch_one_face) = {}"
  by (simp add: toy_run)

text \<open>
  Claim C3, as amended. A \<open>REPLACE\<close> merge into a sketch builder whose new entities
  hold at least one face makes the result the cleaned compound of the new faces alone,
  whatever the result was; a \<open>REPLACE\<close> merge whose new entities hold no face leaves
  the result as it was.
\<close>

theorem replace_merge:
  "(parse_objects K Face objects \<noteq> [] \<longrightarrow>
      (\<exists>self'. add_to_context K self objects REPLACE = Inr self'
         \<and> sketch self' = Some (clean K (makeCompound K (parse_objects K Face objects)))))
   \<and> (parse_objects K Face objects = [] \<longrightarrow>
      (\<exists>self'. add_to_context K self objects REPLACE = Inr self'
         \<and> sketch self' = sketch self))"
proof (intro conjI impI)
  assume "parse_objects K Face objects \<noteq> []"
  then show "\<exists>self'. add_to_context K self objects REPLACE = Inr self'
         \<and> sketch self' = Some (clean K (makeCompound K (parse_objects K Face objects)))"
    using add_to_context_Inr
      [where mode = REPLACE and K = K and self = self and objects = objects,
       OF _ integrate_faces_replace]
    by simp
next
  assume "parse_objects K Face objects = []"
  then show "\<exists>self'. add_to_context K self objects REPLACE = Inr self'
         \<and> sketch self' = sketch self"
    using add_to_context_Inr
      [where mode = REPLACE and K = K and self = self and objects = objects
         and sk = "sketch self"]
    by (simp add: integrate_faces_no_faces)
qed

theorem replace_merge_witness:
  "parse_objects toy Face [Shape (TFace 2)] \<noteq> []
   \<and> (\<exists>self'. add_to_context toy sketch_one_face [Shape (TFace 2)] REPLACE = Inr self'
         \<and> sketch self' = Some (TCompound [TFace 2]))
   \<and> parse_objects toy Face [Shape (TEdge 3)] = []
   \<and> (\<exists>self'. add_to_context toy sketch_one_face [Shape (TEdge 3)] REPLACE = Inr self'
         \<and> sketch self' = Some (TCompound [TFace 1]))"
  using replace_merge
      [where K = toy and self = sketch_one_face and objects = "[Shape (TFace 2)]"]
    replace_merge
      [where K = toy and self = sketch_one_face and objects = "[Shape (TEdge 3)]"]
  by (simp add: parse_objects_def toy_def sketch_one_face_def)

text \<open>
  Claim C3 as stated fails: a \<open>REPLACE\<close> merge of no entity into a builder whose
  result is one face returns with that result still there.
\<close>

theorem replace_merge_counterexample:
  "add_to_context toy sketch_one_face [] REPLACE =
     Inr (sketch_one_face\<lparr>last_vertices := {}, last_edges := {}, last_faces := {}\<rparr>)
   \<and> sketch (sketch_one_face\<lparr>last_vertices := {}, last_edges := {}, last_faces := {}\<rparr>) =
       Some (TCompound [TFace 1])"
  by (simp add: toy_run)




section \<open>Properties of the sketch operations and objects\<close>

text \<open>
  Claim C10. When \<open>BuildFace\<close> or \<open>BuildHull\<close> returns normally, the pending edges of
  the sketch builder are empty. When edges are passed, the face is built from them alone:
  the edges staged before take no part in it and are dropped all the same.
\<close>

theorem pending_edges_cleared:
  "(BuildFace C K ctx edges mode_arg = Inr (ctx', face) \<longrightarrow>
      pending_edges ctx' = []
      \<and> (edges \<noteq> [] \<longrightarrow>
           (\<exists>wire wires. combine K edges = wire # wires \<and> face = makeFromWires K wire)))
   \<and> (BuildHull C K ctx edges mode_arg = Inr (ctx', face) \<longrightarrow>
      pending_edges ctx' = []
      \<and> (edges \<noteq> [] \<longrightarrow> face = makeFromWires K (find_hull K edges)))"
proof (intro conjI impI)
  assume a: "BuildFace C K ctx edges mode_arg = Inr (ctx', face)"
  then show "pending_edges ctx' = []"
    by (auto simp: BuildFace_def Let_def split: option.splits list.splits sum.splits)
  assume "edges \<noteq> []"
  with a show "\<exists>wire wires. combine K edges = wire # wires \<and> face = makeFromWires K wire"
    by (auto simp: BuildFace_def Let_def split: option.splits list.splits sum.splits)
next
  assume a: "BuildHull C K ctx edges mode_arg = Inr (ctx', face)"
  then show "pending_edges ctx' = []"
    by (auto simp: BuildHull_def Let_def split: option.splits sum.splits)
  assume "edges \<noteq> []"
  with a show "face = makeFromWires K (find_hull K edges)"
    by (auto simp: BuildHull_def Let_def split: option.splits sum.splits)
qed

lemma run_BuildFace:
  "BuildFace (toy_common [0]) toy sketch_staged [TEdge 1, TEdge 2] (Some SUBTRACT)
     = Inr (sketch_built 1, TFace 1)"
  by (simp add: BuildFace_def toy_common_def sketch_staged_def sketch_built_def kwarg_def
      toy_run)

lemma run_BuildHull:
  "BuildHull (toy_common [0]) toy sketch_staged [] None = Inr (sketch_built 7, TFace 7)"
  by (simp add: BuildHull_def toy_common_def sketch_staged_def sketch_built_def kwarg_def
      toy_run)

theorem pending_edges_cleared_witness:
  "BuildFace (toy_common [0]) toy sketch_staged [TEdge 1, TEdge 2] (Some SUBTRACT)
     = Inr (sketch_built 1, TFace 1)
   \<and> BuildHull (toy_common [0]) toy sketch_staged [] None = Inr (sketch_built 7, TFace 7)
   \<and> pending_edges sketch_staged = [TEdge 7, TEdge 8]
   \<and> pending_edges (sketch_built 1) = []
   \<and> pending_edges (sketch_built 7) = []
   \<and> TFace 1 = makeFromWires toy (hd (combine toy [TEdge 1, TEdge 2]))"
  using pending_edges_cleared
      [where C = "toy_common [0]" and K = toy and ctx = sketch_staged
         and edges = "[TEdge 1, TEdge 2]" and mode_arg = "Some SUBTRACT"
         and ctx' = "sketch_built 1" and face = "TFace 1"]
    pending_edges_cleared
      [where C = "toy_common [0]" and K = toy and ctx = sketch_staged
         and edges = "[]" and mode_arg = None
         and ctx' = "sketch_built 7" and face = "TFace 7"]
    run_BuildFace run_BuildHull
  by (simp add: sketch_staged_def sketch_built_def BuildSketch_init_def toy_def)

text \<open>
  The \<open>mode\<close> given to \<open>BuildFace\<close> or \<open>BuildHull\<close> has no effect: it reaches the
  merge as one of the objects, where no class test selects it.
\<close>

lemma parse_objects_ModeObj:
  "parse_objects K T [Shape s, ModeObj m] = parse_objects K T [Shape s]"
  by (simp add: parse_objects_def)

lemma add_to_context_ModeObj:
  "add_to_context K b [Shape s, ModeObj m] mode = add_to_context K b [Shape s] mode"
  unfolding add_to_context_def parse_objects_ModeObj by (rule refl)

lemma BuildFace_mode_ignored:
  "BuildFace C K b edges mode_arg = BuildFace C K b edges mode_arg'"
  unfolding BuildFace_def add_to_context_ModeObj Let_def by (rule refl)

lemma BuildHull_mode_ignored:
  "BuildHull C K b edges mode_arg = BuildHull C K b edges mode_arg'"
  unfolding BuildHull_def add_to_context_ModeObj Let_def by (rule refl)


lemma run_validate:
  "validate_inputs (toy_common locs) name context' objects = None"
  by (simp add: toy_common_def)















section \<open>Properties of the generic operations\<close>





lemmas toy_ops =
  ctx_add_to_context_def ctx_obj_def merge_new_def default_objects_def kwarg_def
  as_plane_def Kind_name_lower_def offset_edges_def shell_solids_def toy_common_def







lemma kwarg_simps: "kwarg dflt None = dflt" "kwarg dflt (Some v) = v"
  by (simp_all add: kwarg_def)

text \<open>
  Claim C6, as amended. \<open>Add\<close>, \<open>BoundingBox\<close>, \<open>Mirror\<close>, \<open>BuildFace\<close>,
  \<open>BuildHull\<close> and \<open>Circle\<close> called without \<open>mode\<close> do what they do with
  \<open>mode=Mode.ADD\<close>; \<open>Offset\<close>, \<open>Scale\<close> and \<open>Split\<close> called without \<open>mode\<close> do what
  they do with \<open>mode=Mode.REPLACE\<close>. \<open>Fillet\<close> and \<open>Chamfer\<close> have no \<open>mode\<close>
  parameter: their merge is a \<open>REPLACE\<close>.
\<close>

theorem mode_defaults:
  "Add C K ctx objects rotation None = Add C K ctx objects rotation (Some ADD)
   \<and> BoundingBox C K ctx objects None = BoundingBox C K ctx objects (Some ADD)
   \<and> Mirror C K ctx objects about None = Mirror C K ctx objects about (Some ADD)
   \<and> BuildFace C K b edges None = BuildFace C K b edges (Some ADD)
   \<and> BuildHull C K b edges None = BuildHull C K b edges (Some ADD)
   \<and> Circle C K b radius centered None = Circle C K b radius centered (Some ADD)
   \<and> Offset C K ctx objects amount openings kind None =
       Offset C K ctx objects amount openings kind (Some REPLACE)
   \<and> Scale C K ctx objects factor None = Scale C K ctx objects factor (Some REPLACE)
   \<and> Split C K ctx objects about keep None = Split C K ctx objects about keep (Some REPLACE)
   \<and> (validate_inputs C ''Fillet'' (BuildSketch_ctx b) objects = None \<longrightarrow>
        Fillet C K (BuildSketch_ctx b) objects radius =
          (case ctx_add_to_context C K (BuildSketch_ctx b)
                  [Shape (makeCompound K
                     (per_face K (\<lambda>face vs. fillet2D K face radius vs) objects
                        (Builder_faces C b)))] REPLACE of
             Inl r \<Rightarrow> Inl r
           | Inr ctx' \<Rightarrow>
               Inr (ctx', makeCompound K
                     (per_face K (\<lambda>face vs. fillet2D K face radius vs) objects
                        (Builder_faces C b)))))
   \<and> (validate_inputs C ''Chamfer'' (BuildSketch_ctx b) objects = None \<longrightarrow>
        Chamfer C K (BuildSketch_ctx b) objects length1 length2 =
          (case ctx_add_to_context C K (BuildSketch_ctx b)
                  [Shape (makeCompound K
                     (per_face K (\<lambda>face vs. chamfer2D K face length1 vs) objects
                        (Builder_faces C b)))] REPLACE of
             Inl r \<Rightarrow> Inl r
           | Inr ctx' \<Rightarrow>
               Inr (ctx', makeCompound K
                     (per_face K (\<lambda>face vs. chamfer2D K face length1 vs) objects
                        (Builder_faces C b)))))"
proof (intro conjI impI)
  show "Add C K ctx objects rotation None = Add C K ctx objects rotation (Some ADD)"
    unfolding Add_def kwarg_simps by (rule refl)
  show "BoundingBox C K ctx objects None = BoundingBox C K ctx objects (Some ADD)"
    unfolding BoundingBox_def kwarg_simps by (rule refl)
  show "Mirror C K ctx objects about None = Mirror C K ctx objects about (Some ADD)"
    unfolding Mirror_def kwarg_simps by (rule refl)
  show "BuildFace C K b edges None = BuildFace C K b edges (Some ADD)"
    unfolding BuildFace_def kwarg_simps by (rule refl)
  show "BuildHull C K b edges None = BuildHull C K b edges (Some ADD)"
    unfolding BuildHull_def kwarg_simps by (rule refl)
  show "Circle C K b radius centered None = Circle C K b radius centered (Some ADD)"
    unfolding Circle_def kwarg_simps by (rule refl)
  show "Offset C K ctx objects amount openings kind None =
       Offset C K ctx objects amount openings kind (Some REPLACE)"
    unfolding Offset_def kwarg_simps by (rule refl)
  show "Scale C K ctx objects factor None = Scale C K ctx objects factor (Some REPLACE)"
    unfolding Scale_def kwarg_simps by (rule refl)
  show "Split C K ctx objects about keep None =
      Split C K ctx objects about keep (Some REPLACE)"
    unfolding Split_def kwarg_simps by (rule refl)
next
  assume "validate_inputs C ''Fillet'' (BuildSketch_ctx b) objects = None"
  then show "Fillet C K (BuildSketch_ctx b) objects radius =
          (case ctx_add_to_context C K (BuildSketch_ctx b)
                  [Shape (makeCompound K
                     (per_face K (\<lambda>face vs. fillet2D K face radius vs) objects
                        (Builder_faces C b)))] REPLACE of
             Inl r \<Rightarrow> Inl r
           | Inr ctx' \<Rightarrow>
               Inr (ctx', makeCompound K
                     (per_face K (\<lambda>face vs. fillet2D K face radius vs) objects
                        (Builder_faces C b))))"
    by (simp add: Fillet_def Let_def)
next
  assume "validate_inputs C ''Chamfer'' (BuildSketch_ctx b) objects = None"
  then show "Chamfer C K (BuildSketch_ctx b) objects length1 length2 =
          (case ctx_add_to_context C K (BuildSketch_ctx b)
                  [Shape (makeCompound K
                     (per_face K (\<lambda>face vs. chamfer2D K face length1 vs) objects
                        (Builder_faces C b)))] REPLACE of
             Inl r \<Rightarrow> Inl r
           | Inr ctx' \<Rightarrow>
               Inr (ctx', makeCompound K
                     (per_face K (\<lambda>face vs. chamfer2D K face length1 vs) objects
                        (Builder_faces C b))))"
    by (simp add: Chamfer_def Let_def)
qed

lemma run_Offset_replace:
  "Offset (toy_common [0]) toy (BuildSketch_ctx sketch_one_face) [Shape (TFace 2)] 1 [] ARC
       (Some REPLACE) =
     Inr (BuildSketch_ctx
            \<lparr>sketch = Some (TCompound [TFace 52]), pending_edges = [],
             last_vertices = {TVertex 52}, last_edges = {TEdge 52}, last_faces = {TFace 52}\<rparr>,
          TCompound [TFace 52])"
  by (simp add: Offset_def toy_ops toy_run)

lemma run_Offset_add:
  "Offset (toy_common [0]) toy (BuildSketch_ctx sketch_one_face) [Shape (TFace 2)] 1 [] ARC
       (Some ADD) =
     Inr (BuildSketch_ctx
            \<lparr>sketch = Some (TCompound [TFace 1, TFace 52]), pending_edges = [],
             last_vertices = {TVertex 52}, last_edges = {TEdge 52}, last_faces = {TFace 52}\<rparr>,
          TCompound [TFace 52])"
  by (simp add: Offset_def toy_ops toy_run)

lemma run_Mirror_add:
  "Mirror (toy_common [0]) toy (BuildSketch_ctx sketch_one_face)
       [Shape (TFace 2)] (Plane_name ''XZ'') (Some ADD) =
     Inr (BuildSketch_ctx
            \<lparr>sketch = Some (TCompound [TFace 1, TFace 102]), pending_edges = [],
             last_vertices = {TVertex 102}, last_edges = {TEdge 102},
             last_faces = {TFace 102}\<rparr>,
          TCompound [TFace 102])"
  by (simp add: Mirror_def toy_ops toy_run)

theorem mode_defaults_witness:
  "Offset (toy_common [0]) toy (BuildSketch_ctx sketch_one_face) [Shape (TFace 2)] 1 [] ARC
       None =
     Inr (BuildSketch_ctx
            \<lparr>sketch = Some (TCompound [TFace 52]), pending_edges = [],
             last_vertices = {TVertex 52}, last_edges = {TEdge 52}, last_faces = {TFace 52}\<rparr>,
          TCompound [TFace 52])
   \<and> Mirror (toy_common [0]) toy (BuildSketch_ctx sketch_one_face)
       [Shape (TFace 2)] (Plane_name ''XZ'') None =
     Inr (BuildSketch_ctx
            \<lparr>sketch = Some (TCompound [TFace 1, TFace 102]), pending_edges = [],
             last_vertices = {TVertex 102}, last_edges = {TEdge 102},
             last_faces = {TFace 102}\<rparr>,
          TCompound [TFace 102])"
proof -
  note inst = mode_defaults
    [where C = "toy_common [0]" and K = toy and ctx = "BuildSketch_ctx sketch_one_face"
       and objects = "[Shape (TFace 2)]" and amount = 1 and openings = "[]" and kind = ARC
       and about = "Plane_name ''XZ''"]
  from inst have
    "Offset (toy_common [0]) toy (BuildSketch_ctx sketch_one_face) [Shape (TFace 2)] 1 [] ARC
        None =
     Offset (toy_common [0]) toy (BuildSketch_ctx sketch_one_face) [Shape (TFace 2)] 1 [] ARC
        (Some REPLACE)"
    "Mirror (toy_common [0]) toy (BuildSketch_ctx sketch_one_face)
       [Shape (TFace 2)] (Plane_name ''XZ'') None =
     Mirror (toy_common [0]) toy (BuildSketch_ctx sketch_one_face)
       [Shape (TFace 2)] (Plane_name ''XZ'') (Some ADD)"
    by blast+
  then show ?thesis
    by (simp only: run_Offset_replace run_Mirror_add simp_thms)
qed

text \<open>
  Claim C6 as stated fails: \<open>Offset\<close> of a face, called without \<open>mode\<close> under a builder
  whose sketch is one face, replaces the sketch by the offset face, whereas with
  \<open>mode=Mode.ADD\<close> it fuses the offset face with the sketch.
\<close>

theorem mode_defaults_counterexample:
  "Offset (toy_common [0]) toy (BuildSketch_ctx sketch_one_face) [Shape (TFace 2)] 1 [] ARC
       None =
     Inr (BuildSketch_ctx
            \<lparr>sketch = Some (TCompound [TFace 52]), pending_edges = [],
             last_vertices = {TVertex 52}, last_edges = {TEdge 52}, last_faces = {TFace 52}\<rparr>,
          TCompound [TFace 52])
   \<and> Offset (toy_common [0]) toy (BuildSketch_ctx sketch_one_face) [Shape (TFace 2)] 1 [] ARC
       (Some ADD) =
     Inr (BuildSketch_ctx
            \<lparr>sketch = Some (TCompound [TFace 1, TFace 52]), pending_edges = [],
             last_vertices = {TVertex 52}, last_edges = {TEdge 52}, last_faces = {TFace 52}\<rparr>,
          TCompound [TFace 52])"
proof -
  have "Offset (toy_common [0]) toy (BuildSketch_ctx sketch_one_face) [Shape (TFace 2)] 1 []
      ARC None =
    Offset (toy_common [0]) toy (BuildSketch_ctx sketch_one_face) [Shape (TFace 2)] 1 []
      ARC (Some REPLACE)"
    unfolding Offset_def kwarg_simps by (rule refl)
  then show ?thesis
    by (simp only: run_Offset_replace run_Offset_add simp_thms)
qed

lemma add_to_context_replace_returns:
  "\<exists>b'. add_to_context K b objects REPLACE = Inr b'"
proof (cases "parse_objects K Face objects = []")
  case True
  then have "integrate_faces K (sketch b) (parse_objects K Face objects) REPLACE
      = Inr (sketch b)"
    by (simp add: integrate_faces_no_faces)
  from add_to_context_Inr [OF _ this] show ?thesis by simp
next
  case False
  from add_to_context_Inr [OF _ integrate_faces_replace [OF False]] show ?thesis by simp
qed

lemma Offset_unfold:
  "validate_inputs C ''Offset'' ctx objects = None \<Longrightarrow>
   offset_faces K amount (Kind_name_lower kind)
     (classify K Face (default_objects C ctx objects)) = Inr new_faces \<Longrightarrow>
   Offset C K ctx objects amount openings kind mode_arg =
     (case offset_edges K amount (Kind_name_lower kind)
             (classify K Edge (default_objects C ctx objects)) of
        Inl e \<Rightarrow> Inl (e, ctx)
      | Inr new_wires \<Rightarrow>
          merge_new C K ctx
            (new_wires @ new_faces
               @ shell_solids K amount (Kind_name_lower kind) openings
                   (classify K Solid (default_objects C ctx objects)))
            (kwarg REPLACE mode_arg))"
  unfolding Offset_def Let_def by simp

text \<open>
  Claim C8, as amended. In a call to \<open>Offset\<close> that passes the validation and whose
  face offsets are all found: when the classified edges are exactly one edge, the call
  fails with the \<open>ValueError\<close> of the code and the builder is as it was; when they
  are two or more, the wire assembled from them is offset and the offset wires are
  passed, with the new faces and solids, to the merge of the builder, whose outcome is
  the outcome of the call. Under a sketch builder and without a \<open>mode\<close> that merge
  returns normally.
\<close>

theorem offset_edge_count:
  "(validate_inputs C ''Offset'' ctx objects = None
      \<and> offset_faces K amount (Kind_name_lower kind)
            (classify K Face (default_objects C ctx objects)) = Inr new_faces
      \<and> length (classify K Edge (default_objects C ctx objects)) = 1 \<longrightarrow>
      Offset C K ctx objects amount openings kind mode_arg =
        Inl (ValueError ''At least two edges are required'', ctx))
   \<and> (validate_inputs C ''Offset'' ctx objects = None
      \<and> offset_faces K amount (Kind_name_lower kind)
            (classify K Face (default_objects C ctx objects)) = Inr new_faces
      \<and> 2 \<le> length (classify K Edge (default_objects C ctx objects)) \<longrightarrow>
      Offset C K ctx objects amount openings kind mode_arg =
        merge_new C K ctx
          (offset2D K (assembleEdges K (classify K Edge (default_objects C ctx objects)))
               amount (Kind_name_lower kind)
             @ new_faces
             @ shell_solids K amount (Kind_name_lower kind) openings
                 (classify K Solid (default_objects C ctx objects)))
          (kwarg REPLACE mode_arg))
   \<and> (validate_inputs C ''Offset'' (BuildSketch_ctx b) objects = None
      \<and> offset_faces K amount (Kind_name_lower kind)
            (classify K Face (default_objects C (BuildSketch_ctx b) objects)) = Inr new_faces
      \<and> 2 \<le> length (classify K Edge (default_objects C (BuildSketch_ctx b) objects)) \<longrightarrow>
      (\<exists>b' shape. Offset C K (BuildSketch_ctx b) objects amount openings kind None =
                     Inr (BuildSketch_ctx b', shape)))"
proof (intro conjI impI)
  assume a: "validate_inputs C ''Offset'' ctx objects = None
      \<and> offset_faces K amount (Kind_name_lower kind)
            (classify K Face (default_objects C ctx objects)) = Inr new_faces
      \<and> length (classify K Edge (default_objects C ctx objects)) = 1"
  then have "offset_edges K amount (Kind_name_lower kind)
      (classify K Edge (default_objects C ctx objects))
        = Inl (ValueError ''At least two edges are required'')"
    by (auto simp: offset_edges_def)
  with a show "Offset C K ctx objects amount openings kind mode_arg =
        Inl (ValueError ''At least two edges are required'', ctx)"
    by (simp add: Offset_unfold)
next
  assume a: "validate_inputs C ''Offset'' ctx objects = None
      \<and> offset_faces K amount (Kind_name_lower kind)
            (classify K Face (default_objects C ctx objects)) = Inr new_faces
      \<and> 2 \<le> length (classify K Edge (default_objects C ctx objects))"
  then have "offset_edges K amount (Kind_name_lower kind)
      (classify K Edge (default_objects C ctx objects))
        = Inr (offset2D K (assembleEdges K (classify K Edge (default_objects C ctx objects)))
                 amount (Kind_name_lower kind))"
    by (auto simp: offset_edges_def)
  with a show "Offset C K ctx objects amount openings kind mode_arg =
        merge_new C K ctx
          (offset2D K (assembleEdges K (classify K Edge (default_objects C ctx objects)))
               amount (Kind_name_lower kind)
             @ new_faces
             @ shell_solids K amount (Kind_name_lower kind) openings
                 (classify K Solid (default_objects C ctx objects)))
          (kwarg REPLACE mode_arg)"
    by (simp add: Offset_unfold)
next
  assume a: "validate_inputs C ''Offset'' (BuildSketch_ctx b) objects = None
      \<and> offset_faces K amount (Kind_name_lower kind)
            (classify K Face (default_objects C (BuildSketch_ctx b) objects)) = Inr new_faces
      \<and> 2 \<le> length (classify K Edge (default_objects C (BuildSketch_ctx b) objects))"
  then have e: "offset_edges K amount (Kind_name_lower kind)
      (classify K Edge (default_objects C (BuildSketch_ctx b) objects))
        = Inr (offset2D K
                 (assembleEdges K (classify K Edge (default_objects C (BuildSketch_ctx b) objects)))
                 amount (Kind_name_lower kind))"
    by (auto simp: offset_edges_def)
  define new_objects where "new_objects =
    offset2D K (assembleEdges K (classify K Edge (default_objects C (BuildSketch_ctx b) objects)))
        amount (Kind_name_lower kind)
      @ new_faces
      @ shell_solids K amount (Kind_name_lower kind) openings
          (classify K Solid (default_objects C (BuildSketch_ctx b) objects))"
  from a e have o: "Offset C K (BuildSketch_ctx b) objects amount openings kind None =
      merge_new C K (BuildSketch_ctx b) new_objects REPLACE"
    by (simp add: Offset_unfold new_objects_def kwarg_simps)
  obtain b' where "add_to_context K b (map Shape new_objects) REPLACE = Inr b'"
    using add_to_context_replace_returns by blast
  then have "merge_new C K (BuildSketch_ctx b) new_objects REPLACE =
      Inr (BuildSketch_ctx b', makeCompound K new_objects)"
    by (simp add: merge_new_def ctx_add_to_context_def)
  with o show "\<exists>b' shape. Offset C K (BuildSketch_ctx b) objects amount openings kind None =
                     Inr (BuildSketch_ctx b', shape)"
    by simp
qed

lemma run_Offset_two_edges:
  "Offset (toy_common [0]) toy (BuildSketch_ctx BuildSketch_init)
       [Shape (TEdge 1), Shape (TEdge 2)] 1 [] ARC None =
     Inr (BuildSketch_ctx (BuildSketch_init\<lparr>pending_edges := [TEdge 51, TEdge 52]\<rparr>),
          TCompound [TWire [51, 52]])"
  by (simp add: Offset_def toy_ops toy_run)

lemma run_Offset_inputs:
  "offset_faces toy 1 (Kind_name_lower ARC)
     (classify toy Face
        (default_objects (toy_common [0]) (BuildSketch_ctx BuildSketch_init)
           [Shape (TEdge 1)])) = Inr []"
  "length (classify toy Edge
     (default_objects (toy_common [0]) (BuildSketch_ctx BuildSketch_init)
        [Shape (TEdge 1)])) = 1"
  "offset_faces toy 1 (Kind_name_lower ARC)
     (classify toy Face
        (default_objects (toy_common [0]) (BuildSketch_ctx BuildSketch_init)
           [Shape (TEdge 1), Shape (TEdge 2)])) = Inr []"
  "2 \<le> length (classify toy Edge
     (default_objects (toy_common [0]) (BuildSketch_ctx BuildSketch_init)
        [Shape (TEdge 1), Shape (TEdge 2)]))"
  by (simp_all add: default_objects_def toy_def)

theorem offset_edge_count_witness:
  "validate_inputs (toy_common [0]) ''Offset'' (BuildSketch_ctx BuildSketch_init)
       [Shape (TEdge 1)] = None
   \<and> offset_faces toy 1 (Kind_name_lower ARC)
       (classify toy Face
          (default_objects (toy_common [0]) (BuildSketch_ctx BuildSketch_init)
             [Shape (TEdge 1)])) = Inr []
   \<and> length (classify toy Edge
       (default_objects (toy_common [0]) (BuildSketch_ctx BuildSketch_init)
          [Shape (TEdge 1)])) = 1
   \<and> Offset (toy_common [0]) toy (BuildSketch_ctx BuildSketch_init) [Shape (TEdge 1)] 1 []
       ARC None =
       Inl (ValueError ''At least two edges are required'', BuildSketch_ctx BuildSketch_init)
   \<and> validate_inputs (toy_common [0]) ''Offset'' (BuildSketch_ctx BuildSketch_init)
       [Shape (TEdge 1), Shape (TEdge 2)] = None
   \<and> offset_faces toy 1 (Kind_name_lower ARC)
       (classify toy Face
          (default_objects (toy_common [0]) (BuildSketch_ctx BuildSketch_init)
             [Shape (TEdge 1), Shape (TEdge 2)])) = Inr []
   \<and> 2 \<le> length (classify toy Edge
       (default_objects (toy_common [0]) (BuildSketch_ctx BuildSketch_init)
          [Shape (TEdge 1), Shape (TEdge 2)]))
   \<and> Offset (toy_common [0]) toy (BuildSketch_ctx BuildSketch_init)
       [Shape (TEdge 1), Shape (TEdge 2)] 1 [] ARC None =
       Inr (BuildSketch_ctx (BuildSketch_init\<lparr>pending_edges := [TEdge 51, TEdge 52]\<rparr>),
            TCompound [TWire [51, 52]])"
proof -
  have v1: "validate_inputs (toy_common [0]) ''Offset'' (BuildSketch_ctx BuildSketch_init)
       [Shape (TEdge 1)] = None"
    by (rule run_validate)
  from offset_edge_count
    [where C = "toy_common [0]" and K = toy and ctx = "BuildSketch_ctx BuildSketch_init"
       and objects = "[Shape (TEdge 1)]" and amount = 1 and kind = ARC and new_faces = "[]"
       and openings = "[]" and mode_arg = None]
    v1 run_Offset_inputs(1,2)
  have one: "Offset (toy_common [0]) toy (BuildSketch_ctx BuildSketch_init) [Shape (TEdge 1)]
       1 [] ARC None =
       Inl (ValueError ''At least two edges are required'', BuildSketch_ctx BuildSketch_init)"
    by blast
  show ?thesis
    by (intro conjI run_validate run_Offset_inputs one run_Offset_two_edges)
qed

text \<open>
  Claim C8 as stated fails: \<open>Offset\<close> of two edges and a face with \<open>mode=Mode.SUBTRACT\<close>
  under a fresh sketch builder passes the check of the edges and then fails in the merge.
\<close>

theorem offset_edge_count_counterexample:
  "Offset (toy_common [0]) toy (BuildSketch_ctx BuildSketch_init)
       [Shape (TEdge 1), Shape (TEdge 2), Shape (TFace 3)] 1 [] ARC (Some SUBTRACT) =
     Inl (RuntimeError ''No sketch to subtract from'', BuildSketch_ctx BuildSketch_init)
   \<and> length (classify toy Edge [Shape (TEdge 1), Shape (TEdge 2), Shape (TFace 3)]) = 2"
  by (simp add: Offset_def toy_ops toy_run)








end
